theory Spec2Isabelle
  imports Main
begin

section \<open>Observable effects\<close>

text \<open>
  The preview server of \<^verbatim>\<open>src/index.ts\<close> and \<^verbatim>\<open>src/watcher/file-watcher.ts\<close>
  acts on the outside world through the console, the response objects of the connected
  browsers, the \<^verbatim>\<open>tsc\<close> child process, chokidar and the HTTP listener. Every method
  of the model returns, next to its new state, the list of the effects it performed, in the
  order the source performs them.

  Console lines are named after the key of \<^verbatim>\<open>MESSAGES\<close> in \<^verbatim>\<open>src/config.ts\<close> that
  produces them and carry the interpolated value; their text (which has characters outside
  ASCII) is not modelled.
\<close>

datatype js_error = ReadError | ParseError | WriteError

datatype log_line =
    NOTIFYING nat
  | REBUILD_IN_PROGRESS
  | REBUILDING
  | REBUILD_COMPLETE
  | REBUILD_FAILED "int option"
  | FILE_CHANGED string
  | SOURCE_CHANGED string
  | WATCH_MODE_ENABLED
  | ERROR_NO_FILE
  | USAGE
  | ERROR_READING_FILE string
  | ERROR_OBJECT js_error

datatype 'c effect =
    ConsoleLog log_line
  | ConsoleError log_line
  | ClientWrite 'c string
  | SpawnTsc
  | CallOnSuccess
  | WatchMarkdown string
  | WatchSource string string
  | AppListen nat
  | ProcessExit int

section \<open>ClientManager\<close>

text \<open>
  \<^verbatim>\<open>private clients: Response[] = []\<close>. A response object is compared by reference
  (\<^verbatim>\<open>indexOf\<close> uses strict equality), so the type \<open>'c\<close> of channels stands for object
  identities and HOL equality for \<^verbatim>\<open>===\<close>.
\<close>

record 'c ClientManager =
  clients :: "'c list"

definition newClientManager :: "'c ClientManager" where
  "newClientManager = \<lparr>clients = []\<rparr>"

text \<open>\<^verbatim>\<open>Array.prototype.indexOf\<close>: the first index holding the element, or \<open>-1\<close>.\<close>

fun indexOf :: "'a list \<Rightarrow> 'a \<Rightarrow> int" where
  "indexOf [] x = -1"
| "indexOf (y # ys) x =
     (if y = x then 0
      else (let i = indexOf ys x in if i = -1 then -1 else i + 1))"

text \<open>
  \<^verbatim>\<open>Array.prototype.splice(start, 1)\<close>: a negative start counts from the end (and is
  clamped at 0), a start beyond the length removes nothing.
\<close>

definition splice1 :: "'a list \<Rightarrow> int \<Rightarrow> 'a list" where
  "splice1 xs start =
     (let len = int (length xs);
          k = (if start < 0 then max (len + start) 0 else min start len)
      in take (nat k) xs @ drop (nat k + 1) xs)"

definition addClient :: "'c \<Rightarrow> 'c ClientManager \<Rightarrow> 'c ClientManager" where
  "addClient client cm = cm\<lparr>clients := clients cm @ [client]\<rparr>"

definition removeClient :: "'c \<Rightarrow> 'c ClientManager \<Rightarrow> 'c ClientManager" where
  "removeClient client cm =
     (let index = indexOf (clients cm) client
      in if index \<noteq> -1 then cm\<lparr>clients := splice1 (clients cm) index\<rparr> else cm)"

definition getClientCount :: "'c ClientManager \<Rightarrow> int" where
  "getClientCount cm = int (length (clients cm))"

definition RELOAD_MESSAGE :: string where
  "RELOAD_MESSAGE = ''data: reload'' @ [CHR 0x0A, CHR 0x0A]"

text \<open>
  \<^verbatim>\<open>this.clients.forEach((client) => { client.write("data: reload\n\n"); })\<close>.
  The set \<open>throws\<close> holds the channels whose \<^verbatim>\<open>write\<close> raises. The callback has no
  \<^verbatim>\<open>try\<close>, so the first exception leaves \<^verbatim>\<open>forEach\<close>: the result is the writes
  that succeeded and the exception, if any.
\<close>

fun forEach_write :: "'c set \<Rightarrow> 'c list \<Rightarrow> 'c effect list \<times> js_error option" where
  "forEach_write throws [] = ([], None)"
| "forEach_write throws (client # rest) =
     (if client \<in> throws then ([], Some WriteError)
      else (let (effs, err) = forEach_write throws rest
            in (ClientWrite client RELOAD_MESSAGE # effs, err)))"

definition notifyReload :: "'c set \<Rightarrow> 'c ClientManager \<Rightarrow> 'c effect list \<times> js_error option" where
  "notifyReload throws cm =
     (let (effs, err) = forEach_write throws (clients cm)
      in (ConsoleLog (NOTIFYING (length (clients cm))) # effs, err))"

text \<open>Sequences of calls on the registry, and the removals among them that found the channel.\<close>

datatype 'c registry_call = Register 'c | Unregister 'c

fun registry_call_step :: "'c registry_call \<Rightarrow> 'c ClientManager \<Rightarrow> 'c ClientManager" where
  "registry_call_step (Register c) cm = addClient c cm"
| "registry_call_step (Unregister c) cm = removeClient c cm"

fun registry_run :: "'c registry_call list \<Rightarrow> 'c ClientManager \<Rightarrow> 'c ClientManager" where
  "registry_run [] cm = cm"
| "registry_run (call # calls) cm = registry_run calls (registry_call_step call cm)"

fun registrations :: "'c registry_call list \<Rightarrow> nat" where
  "registrations [] = 0"
| "registrations (Register c # calls) = Suc (registrations calls)"
| "registrations (Unregister c # calls) = registrations calls"

fun effective_removals :: "'c registry_call list \<Rightarrow> 'c ClientManager \<Rightarrow> nat" where
  "effective_removals [] cm = 0"
| "effective_removals (Register c # calls) cm =
     effective_removals calls (addClient c cm)"
| "effective_removals (Unregister c # calls) cm =
     (if indexOf (clients cm) c \<noteq> -1 then 1 else 0)
       + effective_removals calls (removeClient c cm)"

section \<open>TypeScriptRebuilder\<close>

record TypeScriptRebuilder =
  isRebuilding :: bool

definition newTypeScriptRebuilder :: TypeScriptRebuilder where
  "newTypeScriptRebuilder = \<lparr>isRebuilding = False\<rparr>"

text \<open>
  \<^verbatim>\<open>rebuild(projectRoot, onSuccess)\<close> up to the registration of the handlers: either the
  skip message, or the flag is set and \<^verbatim>\<open>npx tsc\<close> is spawned.
\<close>

definition rebuild :: "TypeScriptRebuilder \<Rightarrow> TypeScriptRebuilder \<times> 'c effect list" where
  "rebuild rb =
     (if isRebuilding rb then (rb, [ConsoleLog REBUILD_IN_PROGRESS])
      else (rb\<lparr>isRebuilding := True\<rparr>, [ConsoleLog REBUILDING, SpawnTsc]))"

text \<open>
  The handler of the child's \<^verbatim>\<open>close\<close> event. The exit code is \<^verbatim>\<open>number | null\<close>
  (\<^verbatim>\<open>null\<close> when a signal ended the process); \<^verbatim>\<open>code === 0\<close> holds for \<open>Some 0\<close> only.
\<close>

definition on_close :: "int option \<Rightarrow> TypeScriptRebuilder \<Rightarrow> TypeScriptRebuilder \<times> 'c effect list" where
  "on_close code rb =
     (let rb' = rb\<lparr>isRebuilding := False\<rparr>
      in if code = Some 0 then (rb', [ConsoleLog REBUILD_COMPLETE, CallOnSuccess])
         else (rb', [ConsoleLog (REBUILD_FAILED code)]))"

text \<open>
  The coordinator in its event loop: the rebuilder, the number of \<^verbatim>\<open>tsc\<close> processes that
  were spawned and have not closed, and the effects so far. A \<^verbatim>\<open>close\<close> event can only
  arrive from a live process; the step is \<open>None\<close> otherwise.
\<close>

record 'c coordinator =
  rebuilder :: TypeScriptRebuilder
  live :: nat
  trace :: "'c effect list"

datatype coordinator_event = RebuildRequest | ProcessClosed "int option"

definition coordinator_init :: "'c coordinator" where
  "coordinator_init = \<lparr>rebuilder = newTypeScriptRebuilder, live = 0, trace = []\<rparr>"

fun coordinator_step :: "coordinator_event \<Rightarrow> 'c coordinator \<Rightarrow> 'c coordinator option" where
  "coordinator_step RebuildRequest s =
     (let (rb', effs) = rebuild (rebuilder s)
      in Some \<lparr>rebuilder = rb', live = live s + count_list effs SpawnTsc,
               trace = trace s @ effs\<rparr>)"
| "coordinator_step (ProcessClosed code) s =
     (if live s = 0 then None
      else (let (rb', effs) = on_close code (rebuilder s)
            in Some \<lparr>rebuilder = rb', live = live s - 1, trace = trace s @ effs\<rparr>))"

fun coordinator_run :: "coordinator_event list \<Rightarrow> 'c coordinator \<Rightarrow> 'c coordinator option" where
  "coordinator_run [] s = Some s"
| "coordinator_run (e # es) s =
     (case coordinator_step e s of None \<Rightarrow> None | Some s' \<Rightarrow> coordinator_run es s')"

text \<open>The flag is set exactly while one spawned process has not closed.\<close>

definition coordinator_inv :: "'c coordinator \<Rightarrow> bool" where
  "coordinator_inv s = (live s = (if isRebuilding (rebuilder s) then 1 else 0))"

text \<open>
  Rebuilds started are the \<^verbatim>\<open>spawn\<close> calls made so far; rebuilds completed are the
  \<^verbatim>\<open>close\<close> events handled.
\<close>

definition rebuilds_started :: "'c coordinator \<Rightarrow> nat" where
  "rebuilds_started s = count_list (trace s) SpawnTsc"

fun rebuilds_completed :: "coordinator_event list \<Rightarrow> nat" where
  "rebuilds_completed [] = 0"
| "rebuilds_completed (RebuildRequest # es) = rebuilds_completed es"
| "rebuilds_completed (ProcessClosed code # es) = Suc (rebuilds_completed es)"

section \<open>FileWatcher: the source filter\<close>

text \<open>\<^verbatim>\<open>String.prototype.endsWith\<close>.\<close>

definition endsWith :: "string \<Rightarrow> string \<Rightarrow> bool" where
  "endsWith s suffix =
     (length suffix \<le> length s \<and> drop (length s - length suffix) s = suffix)"

text \<open>
  \<^verbatim>\<open>FILE_WATCHER_OPTIONS.ignored = /(^|[/\\])\../\<close>. In a JavaScript regular expression
  without the \<^verbatim>\<open>s\<close> flag the dot matches every character except a line terminator. A
  \<^typ>\<open>char\<close> stands for a code unit below 256, where the line terminators are line feed
  and carriage return (U+2028 and U+2029 have no counterpart here).
\<close>

definition isLineTerminator :: "char \<Rightarrow> bool" where
  "isLineTerminator c = (c = CHR 0x0A \<or> c = CHR 0x0D)"

definition isSeparator :: "char \<Rightarrow> bool" where
  "isSeparator c = (c = CHR ''/'' \<or> c = CHR 0x5C)"

text \<open>\<^verbatim>\<open>\..\<close> at the head of the remaining input.\<close>

fun dot_any :: "string \<Rightarrow> bool" where
  "dot_any (c # d # rest) = (c = CHR ''.'' \<and> \<not> isLineTerminator d)"
| "dot_any _ = False"

text \<open>
  The search of \<^verbatim>\<open>RegExp.prototype.test\<close>: \<open>atBoundary\<close> holds at the start of the
  input and right after a separator.
\<close>

fun ignored_from :: "bool \<Rightarrow> string \<Rightarrow> bool" where
  "ignored_from atBoundary [] = False"
| "ignored_from atBoundary (c # rest) =
     ((atBoundary \<and> dot_any (c # rest)) \<or> ignored_from (isSeparator c) rest)"

definition ignored :: "string \<Rightarrow> bool" where
  "ignored path = ignored_from True path"

text \<open>
  The handler that \<^verbatim>\<open>watchSourceCode\<close> registers for \<^verbatim>\<open>change\<close>; the callback it passes
  to the rebuilder is \<^verbatim>\<open>notifyReload\<close>.
\<close>

definition on_source_change :: "string \<Rightarrow> TypeScriptRebuilder \<Rightarrow> TypeScriptRebuilder \<times> 'c effect list" where
  "on_source_change path rb =
     (if endsWith path ''.ts'' \<or> endsWith path ''.js''
      then (let (rb', effs) = rebuild rb in (rb', ConsoleLog (SOURCE_CHANGED path) # effs))
      else (rb, []))"





section \<open>Markdown renderer\<close>

text \<open>
  \<^verbatim>\<open>renderer.code\<close> of \<^verbatim>\<open>createCodeRenderer\<close>. highlight.js and the renderer of marked
  that the function falls back to are libraries: \<open>getLanguage\<close>, \<open>highlight\<close> (which may
  throw) and \<open>originalCodeRenderer\<close> are parameters. The language is
  \<^verbatim>\<open>string | undefined\<close>; the empty string is falsy. The function is modelled by the
  string it returns; the console line of its \<^verbatim>\<open>catch\<close> is left out.
\<close>

definition renderer_code ::
  "(string \<Rightarrow> bool) \<Rightarrow> (string \<Rightarrow> string \<Rightarrow> js_error + string) \<Rightarrow>
   (string \<Rightarrow> string option \<Rightarrow> bool \<Rightarrow> string) \<Rightarrow>
   string \<Rightarrow> string option \<Rightarrow> bool \<Rightarrow> string" where
  \<open>renderer_code getLanguage highlight originalCodeRenderer code language isEscaped =
     (if language = Some ''mermaid'' then ''<div class="mermaid">'' @ code @ ''</div>''
      else (case language of
              None \<Rightarrow> originalCodeRenderer code language isEscaped
            | Some lang \<Rightarrow>
                if lang \<noteq> [] \<and> getLanguage lang then
                  (case highlight code lang of
                     Inr highlighted \<Rightarrow>
                       ''<pre><code class="hljs language-'' @ lang @ ''">'' @ highlighted
                         @ ''</code></pre>''
                   | Inl err \<Rightarrow> originalCodeRenderer code language isEscaped)
                else originalCodeRenderer code language isEscaped))\<close>

section \<open>Entry point\<close>

text \<open>
  The file system is a table of the readable paths and their contents:
  \<^verbatim>\<open>readFileSync\<close> throws for a path the table does not have. \<^verbatim>\<open>marked.parse\<close> is
  the parameter \<open>parseMarkdown\<close>.
\<close>

type_synonym filesystem = "(string \<times> string) list"

definition ERROR_LOADING_FILE :: string where
  "ERROR_LOADING_FILE = ''<p>Error loading markdown file</p>''"

definition PORT :: nat where
  "PORT = 4002"

definition readFileSync :: "filesystem \<Rightarrow> string \<Rightarrow> js_error + string" where
  "readFileSync fs filePath = (case map_of fs filePath of None \<Rightarrow> Inl ReadError | Some text \<Rightarrow> Inr text)"

text \<open>
  \<^verbatim>\<open>loadMarkdown\<close>: the \<^verbatim>\<open>try\<close> covers the read and the parse, and the \<^verbatim>\<open>catch\<close>
  returns the placeholder. The result type keeps the exceptional exit that the caller in
  \<^verbatim>\<open>main\<close> guards against.
\<close>

definition loadMarkdown ::
  "filesystem \<Rightarrow> (string \<Rightarrow> js_error + string) \<Rightarrow> string \<Rightarrow> (js_error + string) \<times> 'c effect list" where
  "loadMarkdown fs parseMarkdown filePath =
     (case readFileSync fs filePath of
        Inl err \<Rightarrow>
          (Inr ERROR_LOADING_FILE,
           [ConsoleError (ERROR_READING_FILE filePath), ConsoleError (ERROR_OBJECT err)])
      | Inr markdownContent \<Rightarrow>
          (case parseMarkdown markdownContent of
             Inl err \<Rightarrow>
               (Inr ERROR_LOADING_FILE,
                [ConsoleError (ERROR_READING_FILE filePath), ConsoleError (ERROR_OBJECT err)])
           | Inr html \<Rightarrow> (Inr html, [])))"

text \<open>The application state of \<^verbatim>\<open>src/index.ts\<close>.\<close>

record 'c app =
  currentHtmlContent :: string
  clientManager :: "'c ClientManager"

text \<open>
  The \<^verbatim>\<open>change\<close> handler of \<^verbatim>\<open>watchMarkdownFile\<close> with the callback that
  \<^verbatim>\<open>setupFileWatching\<close> passes: log, assign \<^verbatim>\<open>currentHtmlContent\<close>, notify. The
  watcher observes this one file, so the path of the event is the watched path. An
  exception leaving \<^verbatim>\<open>loadMarkdown\<close> would skip the assignment and the notification.
\<close>

definition on_markdown_change ::
  "filesystem \<Rightarrow> (string \<Rightarrow> js_error + string) \<Rightarrow> 'c set \<Rightarrow> string \<Rightarrow> 'c app
     \<Rightarrow> 'c app \<times> 'c effect list \<times> js_error option" where
  "on_markdown_change fs parseMarkdown throws markdownFilePath a =
     (case loadMarkdown fs parseMarkdown markdownFilePath of
        (Inl err, effs) \<Rightarrow> (a, ConsoleLog (FILE_CHANGED markdownFilePath) # effs, Some err)
      | (Inr html, effs) \<Rightarrow>
          (let a' = a\<lparr>currentHtmlContent := html\<rparr>;
               (effs', err) = notifyReload throws (clientManager a')
           in (a', ConsoleLog (FILE_CHANGED markdownFilePath) # effs @ effs', err)))"

text \<open>
  \<^verbatim>\<open>main\<close>, from the arguments after \<^verbatim>\<open>process.argv.slice(2)\<close>. \<open>join\<close> is
  \<^verbatim>\<open>path.join\<close>, \<open>cwd\<close> and \<open>dirname\<close> are \<^verbatim>\<open>process.cwd()\<close> and \<^verbatim>\<open>__dirname\<close>,
  \<open>watchModeEnv\<close> is \<^verbatim>\<open>process.env.WATCH_MODE\<close>. Nothing runs after
  \<^verbatim>\<open>process.exit\<close>. The result is the content cell (if it was assigned) and the effects,
  up to the call of \<^verbatim>\<open>app.listen\<close>; the set-up of the Express routes has no effect
  of its own and the banner printed once the server listens is left out.
\<close>

definition getMarkdownFilePath ::
  "(string \<Rightarrow> string \<Rightarrow> string) \<Rightarrow> string \<Rightarrow> string list \<Rightarrow> string option \<times> 'c effect list" where
  "getMarkdownFilePath join cwd args =
     (case args of
        [] \<Rightarrow> (None, [ConsoleError ERROR_NO_FILE, ConsoleLog USAGE, ProcessExit 1])
      | arg # _ \<Rightarrow> (Some (join cwd arg), []))"

definition setupFileWatching ::
  "(string \<Rightarrow> string \<Rightarrow> string) \<Rightarrow> string \<Rightarrow> string \<Rightarrow> bool \<Rightarrow> 'c effect list" where
  "setupFileWatching join dirname markdownFilePath watchMode =
     WatchMarkdown markdownFilePath
       # (if watchMode
          then [WatchSource (join dirname ''../src'') (join dirname ''..''),
                ConsoleLog WATCH_MODE_ENABLED]
          else [])"

definition main ::
  "filesystem \<Rightarrow> (string \<Rightarrow> js_error + string) \<Rightarrow> (string \<Rightarrow> string \<Rightarrow> string) \<Rightarrow>
   string \<Rightarrow> string \<Rightarrow> string option \<Rightarrow> string list \<Rightarrow> string option \<times> 'c effect list" where
  "main fs parseMarkdown join cwd dirname watchModeEnv args =
     (case getMarkdownFilePath join cwd args of
        (None, effs) \<Rightarrow> (None, effs)
      | (Some markdownFilePath, effs) \<Rightarrow>
          (case loadMarkdown fs parseMarkdown markdownFilePath of
             (Inl err, effs') \<Rightarrow>
               (None,
                effs @ effs'
                  @ [ConsoleError (ERROR_READING_FILE markdownFilePath),
                     ConsoleError (ERROR_OBJECT err), ProcessExit 1])
           | (Inr html, effs') \<Rightarrow>
               (Some html,
                effs @ effs'
                  @ setupFileWatching join dirname markdownFilePath (watchModeEnv = Some ''true'')
                  @ [AppListen PORT])))"

text \<open>What an observer of the process sees of a run of \<^verbatim>\<open>main\<close>.\<close>

definition exit_codes :: "'c effect list \<Rightarrow> int list" where
  "exit_codes effs = concat (map (\<lambda>e. case e of ProcessExit n \<Rightarrow> [n] | _ \<Rightarrow> []) effs)"

definition server_started :: "'c effect list \<Rightarrow> bool" where
  "server_started effs = list_ex (\<lambda>e. case e of AppListen p \<Rightarrow> True | _ \<Rightarrow> False) effs"

section \<open>Properties of the ClientManager\<close>

subsection \<open>Array primitives\<close>

lemma indexOf_lower: "-1 \<le> indexOf xs x"
  by (induction xs) (auto simp: Let_def)

lemma indexOf_absent: "(indexOf xs x = -1) = (x \<notin> set xs)"
proof (induction xs)
  case Nil
  then show ?case by simp
next
  case (Cons y ys)
  have "indexOf ys x + 1 \<noteq> -1" using indexOf_lower [of ys x] by linarith
  with Cons show ?case by (auto simp: Let_def)
qed

lemma indexOf_upper: "indexOf xs x < int (length xs)"
  by (induction xs) (auto simp: Let_def)

lemma indexOf_present: "x \<in> set xs \<Longrightarrow> 0 \<le> indexOf xs x \<and> indexOf xs x < int (length xs)"
  using indexOf_absent [of xs x] indexOf_lower [of xs x] indexOf_upper [of xs x] by linarith

lemma length_splice1:
  "0 \<le> i \<Longrightarrow> i < int (length xs) \<Longrightarrow> length (splice1 xs i) = length xs - 1"
  by (auto simp: splice1_def Let_def min_def)

subsection \<open>Counting\<close>

lemma count_addClient: "getClientCount (addClient c cm) = getClientCount cm + 1"
  by (simp add: getClientCount_def addClient_def)

lemma count_removeClient:
  "getClientCount (removeClient c cm) =
     getClientCount cm - (if indexOf (clients cm) c \<noteq> -1 then 1 else 0)"
proof (cases "c \<in> set (clients cm)")
  case True
  then have "0 \<le> indexOf (clients cm) c" "indexOf (clients cm) c < int (length (clients cm))"
    using indexOf_present by fastforce+
  then have "length (splice1 (clients cm) (indexOf (clients cm) c)) = length (clients cm) - 1"
    by (rule length_splice1)
  moreover have "length (clients cm) > 0" using True by (cases "clients cm") auto
  ultimately have "int (length (splice1 (clients cm) (indexOf (clients cm) c))) =
      int (length (clients cm)) - 1"
    by linarith
  then show ?thesis using True
    by (simp add: getClientCount_def removeClient_def Let_def indexOf_absent)
next
  case False
  then show ?thesis
    by (simp add: getClientCount_def removeClient_def Let_def indexOf_absent)
qed

lemma count_registry_run:
  "getClientCount (registry_run calls cm) =
     getClientCount cm + int (registrations calls) - int (effective_removals calls cm)"
proof (induction calls arbitrary: cm)
  case Nil
  then show ?case by simp
next
  case (Cons call calls)
  show ?case
  proof (cases call)
    case (Register c)
    then show ?thesis using Cons.IH [of "addClient c cm"]
      by (simp add: count_addClient)
  next
    case (Unregister c)
    then show ?thesis using Cons.IH [of "removeClient c cm"]
      by (simp add: count_removeClient)
  qed
qed

text \<open>
  C7, as the code has it. Starting from the empty registry, after any sequence of
  \<^verbatim>\<open>addClient\<close> and \<^verbatim>\<open>removeClient\<close> calls \<^verbatim>\<open>getClientCount()\<close> is the number of
  registrations minus the number of removals that found their channel, and it is never
  negative. There is no deduplication: every \<^verbatim>\<open>addClient\<close> raises the count by one,
  whether or not the channel is already in the array.
\<close>

theorem registry_count:
  "getClientCount (registry_run calls newClientManager) =
     int (registrations calls) - int (effective_removals calls newClientManager)
   \<and> 0 \<le> getClientCount (registry_run calls newClientManager)
   \<and> getClientCount (addClient c cm) = getClientCount cm + 1"
proof -
  have "getClientCount (newClientManager :: 'a ClientManager) = 0"
    by (simp add: getClientCount_def newClientManager_def)
  then have "getClientCount (registry_run calls newClientManager) =
     int (registrations calls) - int (effective_removals calls newClientManager)"
    using count_registry_run [of calls newClientManager] by simp
  moreover have "0 \<le> getClientCount (registry_run calls newClientManager)"
    by (simp add: getClientCount_def)
  ultimately show ?thesis by (simp add: count_addClient)
qed

text \<open>
  C7 as stated fails: one channel registered twice is counted twice, although the
  registered channels are that single one.
\<close>

theorem registry_double_count:
  "getClientCount (registry_run [Register (7::nat), Register 7] newClientManager) = 2
   \<and> set (clients (registry_run [Register (7::nat), Register 7] newClientManager)) = {7}"
  by (simp add: getClientCount_def newClientManager_def addClient_def)

subsection \<open>Removal of an unknown channel\<close>

text \<open>
  C8. \<^verbatim>\<open>removeClient\<close> with a channel that is not in the array (never registered, or
  removed before) leaves the registry as it is. The method consists of \<^verbatim>\<open>indexOf\<close>, a
  comparison and a guarded \<^verbatim>\<open>splice\<close>, none of which can throw, so it is a total function.
\<close>

theorem removeClient_unknown:
  "client \<notin> set (clients cm) \<Longrightarrow> removeClient client cm = cm"
  by (simp add: removeClient_def indexOf_absent)

theorem removeClient_unknown_witness:
  "(2::nat) \<notin> set (clients \<lparr>clients = [1, 3]\<rparr>)
   \<and> removeClient 2 \<lparr>clients = [1, 3::nat]\<rparr> = \<lparr>clients = [1, 3]\<rparr>"
proof -
  have h: "(2::nat) \<notin> set (clients \<lparr>clients = [1, 3]\<rparr>)" by simp
  show ?thesis using h removeClient_unknown [OF h] by simp
qed

subsection \<open>Broadcast\<close>

lemma forEach_write_result:
  "forEach_write throws cs =
     (map (\<lambda>c. ClientWrite c RELOAD_MESSAGE) (takeWhile (\<lambda>c. c \<notin> throws) cs),
      if set cs \<inter> throws = {} then None else Some WriteError)"
  by (induction cs) auto

text \<open>
  C1, as the code has it. \<^verbatim>\<open>notifyReload\<close> writes the reload message to the registered
  channels in registration order up to the first channel whose \<^verbatim>\<open>write\<close> throws. Nothing
  catches that exception: it leaves \<^verbatim>\<open>notifyReload\<close>, and the channels after the failing
  one are not written to. When no write throws, every channel registered at call time
  receives the message and the call returns normally.
\<close>

theorem notifyReload_until_first_failure:
  "fst (notifyReload throws cm) =
     ConsoleLog (NOTIFYING (length (clients cm)))
       # map (\<lambda>c. ClientWrite c RELOAD_MESSAGE) (takeWhile (\<lambda>c. c \<notin> throws) (clients cm))
   \<and> snd (notifyReload throws cm) =
       (if set (clients cm) \<inter> throws = {} then None else Some WriteError)"
  by (simp add: notifyReload_def forEach_write_result)

text \<open>
  C1 as stated fails: with three channels of which the second throws, the third never
  receives the message and the exception reaches the caller.
\<close>

theorem notifyReload_failure_propagates:
  "ClientWrite 3 RELOAD_MESSAGE \<notin> set (fst (notifyReload {2} \<lparr>clients = [1, 2, 3::nat]\<rparr>))
   \<and> snd (notifyReload {2} \<lparr>clients = [1, 2, 3::nat]\<rparr>) = Some WriteError"
  by (simp add: notifyReload_def)

section \<open>Properties of the TypeScriptRebuilder\<close>

lemma coordinator_inv_init: "coordinator_inv coordinator_init"
  by (simp add: coordinator_inv_def coordinator_init_def newTypeScriptRebuilder_def)

lemma coordinator_inv_step:
  "coordinator_inv s \<Longrightarrow> coordinator_step e s = Some s' \<Longrightarrow> coordinator_inv s'"
  by (cases e) (auto simp: coordinator_inv_def rebuild_def on_close_def Let_def split: if_splits)

lemma coordinator_inv_run:
  "coordinator_inv s \<Longrightarrow> coordinator_run es s = Some s' \<Longrightarrow> coordinator_inv s'"
proof (induction es arbitrary: s)
  case Nil
  then show ?case by simp
next
  case (Cons e es)
  then obtain s1 where s1: "coordinator_step e s = Some s1" "coordinator_run es s1 = Some s'"
    by (auto split: option.splits)
  from Cons.prems(1) s1(1) have "coordinator_inv s1" by (rule coordinator_inv_step)
  then show ?case using s1(2) by (rule Cons.IH)
qed

lemma started_step:
  "coordinator_step e s = Some s' \<Longrightarrow>
     rebuilds_started s' + live s = rebuilds_started s + rebuilds_completed [e] + live s'"
  by (cases e) (auto simp: rebuilds_started_def rebuild_def on_close_def Let_def split: if_splits)

lemma rebuilds_completed_Cons:
  "rebuilds_completed (e # es) = rebuilds_completed [e] + rebuilds_completed es"
  by (cases e) simp_all

lemma started_run:
  "coordinator_run es s = Some s' \<Longrightarrow>
     rebuilds_started s' + live s = rebuilds_started s + rebuilds_completed es + live s'"
proof (induction es arbitrary: s)
  case Nil
  then show ?case by simp
next
  case (Cons e es)
  then obtain s1 where s1: "coordinator_step e s = Some s1" "coordinator_run es s1 = Some s'"
    by (auto split: option.splits)
  have "rebuilds_started s1 + live s = rebuilds_started s + rebuilds_completed [e] + live s1"
    using s1(1) by (rule started_step)
  moreover have "rebuilds_started s' + live s1 =
      rebuilds_started s1 + rebuilds_completed es + live s'"
    using s1(2) by (rule Cons.IH)
  ultimately show ?case
    using rebuilds_completed_Cons [of e es] by linarith
qed

lemma started_from_init:
  assumes "coordinator_run es coordinator_init = Some s"
  shows "rebuilds_started s = rebuilds_completed es + live s"
  using started_run [OF assms]
  by (simp add: coordinator_init_def rebuilds_started_def)

lemma reachable_inv:
  "coordinator_run es coordinator_init = Some s \<Longrightarrow> coordinator_inv s"
  using coordinator_inv_init by (rule coordinator_inv_run)

text \<open>
  C2. In every state the coordinator reaches from its initial state by rebuild requests and
  \<^verbatim>\<open>close\<close> events, at most one spawned \<^verbatim>\<open>tsc\<close> process is live, one is live exactly
  when \<^verbatim>\<open>isRebuilding\<close> is set, and a rebuild request made while the flag is set spawns
  nothing and leaves the flag and the live processes as they are: it only prints the
  skip message.
\<close>

theorem rebuild_while_running:
  assumes "coordinator_run es coordinator_init = Some s"
  shows "live s \<le> 1
    \<and> (live s = 1) = isRebuilding (rebuilder s)
    \<and> (isRebuilding (rebuilder s) \<longrightarrow>
         coordinator_step RebuildRequest s =
           Some (s\<lparr>trace := trace s @ [ConsoleLog REBUILD_IN_PROGRESS]\<rparr>))"
proof -
  have "coordinator_inv s" using assms by (rule reachable_inv)
  then have "live s \<le> 1" "(live s = 1) = isRebuilding (rebuilder s)"
    by (simp_all add: coordinator_inv_def)
  moreover have "isRebuilding (rebuilder s) \<longrightarrow>
         coordinator_step RebuildRequest s =
           Some (s\<lparr>trace := trace s @ [ConsoleLog REBUILD_IN_PROGRESS]\<rparr>)"
    by (simp add: rebuild_def)
  ultimately show ?thesis by blast
qed

theorem rebuild_while_running_witness:
  "\<exists>s :: nat coordinator.
     coordinator_run [RebuildRequest, RebuildRequest] coordinator_init = Some s
     \<and> isRebuilding (rebuilder s) \<and> live s \<le> 1
     \<and> coordinator_step RebuildRequest s =
          Some (s\<lparr>trace := trace s @ [ConsoleLog REBUILD_IN_PROGRESS]\<rparr>)"
proof -
  define s :: "nat coordinator" where
    "s = \<lparr>rebuilder = \<lparr>isRebuilding = True\<rparr>, live = 1,
          trace = [ConsoleLog REBUILDING, SpawnTsc, ConsoleLog REBUILD_IN_PROGRESS]\<rparr>"
  have run: "coordinator_run [RebuildRequest, RebuildRequest] coordinator_init = Some s"
    by (simp add: s_def coordinator_init_def newTypeScriptRebuilder_def rebuild_def)
  have running: "isRebuilding (rebuilder s)" by (simp add: s_def)
  show ?thesis using run running rebuild_while_running [OF run] by blast
qed

lemma coordinator_run_append:
  "coordinator_run (es @ es') s =
     (case coordinator_run es s of None \<Rightarrow> None | Some s1 \<Rightarrow> coordinator_run es' s1)"
  by (induction es arbitrary: s) (auto split: option.splits)

text \<open>
  C3. From every reachable state with a rebuild running, the \<^verbatim>\<open>close\<close> event is handled
  for every exit code (zero, non-zero, or none), clears \<^verbatim>\<open>isRebuilding\<close> and leaves no
  live process; the rebuilds started then equal the rebuilds completed; and the next
  rebuild request is accepted: it sets the flag and spawns a process.
\<close>

theorem rebuild_completion:
  assumes "coordinator_run es coordinator_init = Some s" and "isRebuilding (rebuilder s)"
  shows "\<exists>s'. coordinator_step (ProcessClosed code) s = Some s'
    \<and> \<not> isRebuilding (rebuilder s') \<and> live s' = 0
    \<and> rebuilds_started s' = rebuilds_completed (es @ [ProcessClosed code])
    \<and> (\<exists>s''. coordinator_step RebuildRequest s' = Some s''
          \<and> isRebuilding (rebuilder s'') \<and> live s'' = 1
          \<and> trace s'' = trace s' @ [ConsoleLog REBUILDING, SpawnTsc])"
proof -
  have "coordinator_inv s" using assms(1) by (rule reachable_inv)
  with assms(2) have live: "live s = 1" by (simp add: coordinator_inv_def)
  define s' where "s' = \<lparr>rebuilder = fst (on_close code (rebuilder s) :: _ \<times> 'a effect list),
     live = live s - 1, trace = trace s @ snd (on_close code (rebuilder s))\<rparr>"
  have step: "coordinator_step (ProcessClosed code) s = Some s'"
    using live by (simp add: s'_def split: prod.splits)
  have idle: "\<not> isRebuilding (rebuilder s')" "live s' = 0"
    using live by (simp_all add: s'_def on_close_def Let_def)
  have "coordinator_run (es @ [ProcessClosed code]) coordinator_init = Some s'"
    using assms(1) step by (simp add: coordinator_run_append)
  then have count: "rebuilds_started s' = rebuilds_completed (es @ [ProcessClosed code])"
    using started_from_init idle(2) by fastforce
  have "\<exists>s''. coordinator_step RebuildRequest s' = Some s''
          \<and> isRebuilding (rebuilder s'') \<and> live s'' = 1
          \<and> trace s'' = trace s' @ [ConsoleLog REBUILDING, SpawnTsc]"
    using idle by (simp add: rebuild_def)
  with step idle count show ?thesis by blast
qed

theorem rebuild_completion_witness:
  "\<exists>s s' :: nat coordinator.
     coordinator_run [RebuildRequest] coordinator_init = Some s
     \<and> isRebuilding (rebuilder s)
     \<and> coordinator_step (ProcessClosed (Some 1)) s = Some s'
     \<and> \<not> isRebuilding (rebuilder s') \<and> live s' = 0
     \<and> rebuilds_started s' = rebuilds_completed [RebuildRequest, ProcessClosed (Some 1)]
     \<and> (\<exists>s''. coordinator_step RebuildRequest s' = Some s''
           \<and> isRebuilding (rebuilder s'') \<and> live s'' = 1
           \<and> trace s'' = trace s' @ [ConsoleLog REBUILDING, SpawnTsc])"
proof -
  define s :: "nat coordinator" where
    "s = \<lparr>rebuilder = \<lparr>isRebuilding = True\<rparr>, live = 1,
          trace = [ConsoleLog REBUILDING, SpawnTsc]\<rparr>"
  have run: "coordinator_run [RebuildRequest] coordinator_init = Some s"
    by (simp add: s_def coordinator_init_def newTypeScriptRebuilder_def rebuild_def)
  have running: "isRebuilding (rebuilder s)" by (simp add: s_def)
  show ?thesis
    using run running rebuild_completion [OF run running, of "Some 1"] by auto
qed

text \<open>
  C4. The \<^verbatim>\<open>close\<close> handler invokes \<^verbatim>\<open>onSuccess\<close> if and only if the exit code is 0;
  for every other code (or none) its only effect besides clearing the flag is the
  failure line on the console.
\<close>

theorem on_close_callback:
  "(CallOnSuccess \<in> set (snd (on_close code rb :: _ \<times> 'c effect list))) = (code = Some 0)
   \<and> (code \<noteq> Some 0 \<longrightarrow>
        snd (on_close code rb :: _ \<times> 'c effect list) = [ConsoleLog (REBUILD_FAILED code)])"
  by (simp add: on_close_def Let_def)

theorem on_close_callback_witness:
  "Some (2::int) \<noteq> Some 0
   \<and> CallOnSuccess \<notin> set (snd (on_close (Some 2) \<lparr>isRebuilding = True\<rparr> :: _ \<times> nat effect list))
   \<and> snd (on_close (Some 2) \<lparr>isRebuilding = True\<rparr> :: _ \<times> nat effect list)
        = [ConsoleLog (REBUILD_FAILED (Some 2))]
   \<and> CallOnSuccess \<in> set (snd (on_close (Some 0) \<lparr>isRebuilding = True\<rparr> :: _ \<times> nat effect list))"
proof -
  have h: "Some (2::int) \<noteq> Some 0" by simp
  show ?thesis
    using h on_close_callback [of "Some 2" "\<lparr>isRebuilding = True\<rparr>", where 'c = nat]
      on_close_callback [of "Some 0" "\<lparr>isRebuilding = True\<rparr>", where 'c = nat]
    by simp
qed

section \<open>Properties of the source filter\<close>

lemma endsWith_suffix: "endsWith s suf = (\<exists>pre. s = pre @ suf)"
proof
  assume "endsWith s suf"
  then have "s = take (length s - length suf) s @ suf"
    by (metis append_take_drop_id endsWith_def)
  then show "\<exists>pre. s = pre @ suf" ..
next
  assume "\<exists>pre. s = pre @ suf"
  then show "endsWith s suf" by (auto simp: endsWith_def)
qed

lemma on_source_change_iff:
  "(snd (on_source_change path rb :: _ \<times> 'c effect list) \<noteq> []) =
     (endsWith path ''.ts'' \<or> endsWith path ''.js'')"
  by (simp add: on_source_change_def case_prod_beta)

lemma on_source_change_rebuild:
  "endsWith path ''.ts'' \<or> endsWith path ''.js'' \<Longrightarrow>
     on_source_change path rb =
       (fst (rebuild rb :: _ \<times> 'c effect list),
        ConsoleLog (SOURCE_CHANGED path) # snd (rebuild rb :: _ \<times> 'c effect list))"
  by (simp add: on_source_change_def case_prod_beta)

lemma on_source_change_other:
  "\<not> (endsWith path ''.ts'' \<or> endsWith path ''.js'') \<Longrightarrow> on_source_change path rb = (rb, [])"
  by (simp add: on_source_change_def)

lemma ignored_from_later:
  "ignored_from b' ys \<Longrightarrow> xs \<noteq> [] \<Longrightarrow> isSeparator (last xs) = b' \<Longrightarrow> ignored_from b (xs @ ys)"
proof (induction xs arbitrary: b)
  case Nil
  then show ?case by simp
next
  case (Cons x xs)
  show ?case
  proof (cases "xs = []")
    case True
    with Cons.prems show ?thesis by auto
  next
    case False
    with Cons have "ignored_from (isSeparator x) (xs @ ys)" by simp
    then show ?thesis by simp
  qed
qed

lemma ignored_dot_first:
  "\<not> isLineTerminator d \<Longrightarrow> ignored (CHR ''.'' # d # rest)"
  by (simp add: ignored_def)

lemma ignored_dot_component:
  assumes "\<not> isLineTerminator d" and "isSeparator sep"
  shows "ignored (dir @ sep # CHR ''.'' # d # rest)"
proof -
  have "ignored_from True (CHR ''.'' # d # rest)" using assms(1) by simp
  then have "ignored_from True ((dir @ [sep]) @ CHR ''.'' # d # rest)"
    using assms(2) by (intro ignored_from_later) auto
  then show ?thesis by (simp add: ignored_def)
qed

subsection \<open>The pattern and the components of a path\<close>










section \<open>Properties of the renderer\<close>

text \<open>
  C10. For a fenced block whose language is exactly \<^verbatim>\<open>mermaid\<close>, \<^verbatim>\<open>renderer.code\<close>
  returns the opening tag of a \<^verbatim>\<open>div\<close> of class \<^verbatim>\<open>mermaid\<close>, the code it was given,
  character for character, and the closing tag: nothing is escaped, whatever the highlighter
  and the fallback renderer are.
\<close>

theorem renderer_code_mermaid:
  \<open>renderer_code getLanguage highlight originalCodeRenderer code (Some ''mermaid'') isEscaped =
     ''<div class="mermaid">'' @ code @ ''</div>''\<close>
  by (simp add: renderer_code_def)

text \<open>Markup in the diagram source reaches the page as markup.\<close>

lemma renderer_code_mermaid_markup:
  \<open>renderer_code getLanguage highlight originalCodeRenderer
      ''A[<b>x</b>] --> B & C'' (Some ''mermaid'') isEscaped =
     ''<div class="mermaid">A[<b>x</b>] --> B & C</div>''\<close>
  by (simp add: renderer_code_def)

section \<open>Properties of the entry point\<close>

text \<open>
  \<^verbatim>\<open>loadMarkdown\<close> catches whatever the read or the parse throws, so the \<^verbatim>\<open>catch\<close> in
  \<^verbatim>\<open>main\<close> around its call is never entered.
\<close>

lemma loadMarkdown_never_throws:
  "\<exists>html. fst (loadMarkdown fs parseMarkdown filePath :: _ \<times> 'c effect list) = Inr html"
  by (simp add: loadMarkdown_def split: sum.splits)

lemma loadMarkdown_unreadable:
  "map_of fs filePath = None \<Longrightarrow>
     loadMarkdown fs parseMarkdown filePath =
       (Inr ERROR_LOADING_FILE,
        [ConsoleError (ERROR_READING_FILE filePath), ConsoleError (ERROR_OBJECT ReadError)])"
  by (simp add: loadMarkdown_def readFileSync_def)

text \<open>
  C5, as the code has it. When the content file is unreadable at a change event, the
  rendered-content cell is overwritten with the placeholder
  \<^verbatim>\<open><p>Error loading markdown file</p>\<close>, the error is printed on the console, and the
  reload broadcast is performed as for any other change.
\<close>

theorem markdown_change_unreadable:
  assumes "map_of fs markdownFilePath = None"
  shows "on_markdown_change fs parseMarkdown throws markdownFilePath a =
    (a\<lparr>currentHtmlContent := ERROR_LOADING_FILE\<rparr>,
     [ConsoleLog (FILE_CHANGED markdownFilePath),
      ConsoleError (ERROR_READING_FILE markdownFilePath),
      ConsoleError (ERROR_OBJECT ReadError)]
       @ fst (notifyReload throws (clientManager a)),
     snd (notifyReload throws (clientManager a)))"
  by (simp add: on_markdown_change_def loadMarkdown_unreadable [OF assms] case_prod_beta)

theorem markdown_change_unreadable_witness:
  "map_of [(''other.md'', ''# Other'')] ''doc.md'' = None
   \<and> on_markdown_change [(''other.md'', ''# Other'')] Inr {} ''doc.md''
        \<lparr>currentHtmlContent = ''<h1>Hello</h1>'', clientManager = \<lparr>clients = [1::nat, 2]\<rparr>\<rparr>
      = (\<lparr>currentHtmlContent = ERROR_LOADING_FILE, clientManager = \<lparr>clients = [1, 2]\<rparr>\<rparr>,
         [ConsoleLog (FILE_CHANGED ''doc.md''),
          ConsoleError (ERROR_READING_FILE ''doc.md''),
          ConsoleError (ERROR_OBJECT ReadError),
          ConsoleLog (NOTIFYING 2),
          ClientWrite 1 RELOAD_MESSAGE, ClientWrite 2 RELOAD_MESSAGE],
         None)"
proof -
  have h: "map_of [(''other.md'', ''# Other'')] ''doc.md'' = None" by simp
  show ?thesis
    using h markdown_change_unreadable [OF h, of Inr "{}"
        "\<lparr>currentHtmlContent = ''<h1>Hello</h1>'', clientManager = \<lparr>clients = [1::nat, 2]\<rparr>\<rparr>"]
    by (simp add: notifyReload_def)
qed

text \<open>
  C5 as stated fails: with no readable file, the content that was served is replaced and
  the connected channel is sent the reload message.
\<close>

theorem markdown_change_unreadable_replaces_content:
  "currentHtmlContent (fst (on_markdown_change [] Inr {} ''doc.md''
        \<lparr>currentHtmlContent = ''<h1>Hello</h1>'', clientManager = \<lparr>clients = [1::nat]\<rparr>\<rparr>))
      \<noteq> ''<h1>Hello</h1>''
   \<and> ClientWrite 1 RELOAD_MESSAGE \<in> set (fst (snd (on_markdown_change [] Inr {} ''doc.md''
        \<lparr>currentHtmlContent = ''<h1>Hello</h1>'', clientManager = \<lparr>clients = [1::nat]\<rparr>\<rparr>)))"
  by (simp add: on_markdown_change_def loadMarkdown_def readFileSync_def notifyReload_def
      ERROR_LOADING_FILE_def)

text \<open>
  C6 on the code. Started on a file that cannot be read, \<^verbatim>\<open>main\<close> prints the error,
  takes the placeholder as content, sets up the watchers and listens on the port: the
  process does not exit.
\<close>

theorem main_unreadable_file_starts_server:
  "main [] parseMarkdown join cwd dirname watchModeEnv [''missing.md''] =
     (Some ERROR_LOADING_FILE,
      [ConsoleError (ERROR_READING_FILE (join cwd ''missing.md'')),
       ConsoleError (ERROR_OBJECT ReadError)]
        @ setupFileWatching join dirname (join cwd ''missing.md'') (watchModeEnv = Some ''true'')
        @ [AppListen PORT])
   \<and> server_started (snd (main [] parseMarkdown join cwd dirname watchModeEnv [''missing.md'']
         :: _ \<times> 'c effect list))
   \<and> exit_codes (snd (main [] parseMarkdown join cwd dirname watchModeEnv [''missing.md'']
         :: _ \<times> 'c effect list)) = []"
  by (auto simp: main_def getMarkdownFilePath_def loadMarkdown_def readFileSync_def
      server_started_def exit_codes_def setupFileWatching_def)

text \<open>With a file argument, readable or not, \<^verbatim>\<open>main\<close> never exits and always listens.\<close>

lemma main_never_exits_on_load:
  "args \<noteq> [] \<Longrightarrow>
     exit_codes (snd (main fs parseMarkdown join cwd dirname watchModeEnv args
        :: _ \<times> 'c effect list)) = []
     \<and> server_started (snd (main fs parseMarkdown join cwd dirname watchModeEnv args
        :: _ \<times> 'c effect list))"
  by (cases args)
    (auto simp: main_def getMarkdownFilePath_def loadMarkdown_def readFileSync_def
      server_started_def exit_codes_def setupFileWatching_def split: option.splits sum.splits)

end
